theory Spec2Isabelle
  imports Main "HOL-Library.AList" "HOL-Library.Sublist"
begin

section \<open>The xtra-equip server: data model\<close>

text \<open>
  The server is an Express application over three MongoDB collections. The theory
  embeds the complete revision of the server file (the first file of
  \<^verbatim>\<open>src/unnamed/part_000\<close>); \<^verbatim>\<open>src/index.js\<close> is an earlier revision with the same
  \<^verbatim>\<open>verifyToken\<close>, \<^verbatim>\<open>POST /users\<close>, \<^verbatim>\<open>GET /jwt\<close> and \<^verbatim>\<open>GET /users/admin/:email\<close>.

  A JSON value that a document field holds. Documents are flat: a field holds a
  scalar or an ObjectId (written as its hexadecimal string). A document is an
  association list, read with \<open>field\<close>; a missing field is JavaScript's
  \<^verbatim>\<open>undefined\<close>, the value \<open>None\<close>.
\<close>

datatype jv = JNull | JBool bool | JNum int | JStr string | JOid string

type_synonym doc = "(string \<times> jv) list"

definition field :: "doc \<Rightarrow> string \<Rightarrow> jv option" where
  "field d f = map_of d f"

text \<open>JavaScript truthiness of a property read.\<close>

fun truthy :: "jv option \<Rightarrow> bool" where
  "truthy None = False"
| "truthy (Some JNull) = False"
| "truthy (Some (JBool b)) = b"
| "truthy (Some (JNum n)) = (n \<noteq> 0)"
| "truthy (Some (JStr s)) = (s \<noteq> [])"
| "truthy (Some (JOid s)) = True"

text \<open>
  The driver serialises \<^verbatim>\<open>undefined\<close> inside a filter as \<^verbatim>\<open>null\<close>
  (its \<^verbatim>\<open>ignoreUndefined\<close> option is off by default).
\<close>

definition wire :: "jv option \<Rightarrow> jv" where
  "wire v = (case v of None \<Rightarrow> JNull | Some x \<Rightarrow> x)"

subsection \<open>The document store\<close>

text \<open>
  A collection is the list of its documents in natural order. A filter is a list of
  equality conditions \<^verbatim>\<open>{f: v}\<close>; equality with \<^verbatim>\<open>null\<close> also matches a document
  that lacks the field, as MongoDB's does.
\<close>

type_synonym filter = "(string \<times> jv) list"

datatype db_error = BSONTypeError | TypeError | DuplicateKey | ImmutableField

definition eq_match :: "doc \<Rightarrow> string \<times> jv \<Rightarrow> bool" where
  "eq_match d c =
     (if snd c = JNull then field d (fst c) = None \<or> field d (fst c) = Some JNull
      else field d (fst c) = Some (snd c))"

definition matches :: "filter \<Rightarrow> doc \<Rightarrow> bool" where
  "matches q d = list_all (eq_match d) q"

definition findOne :: "filter \<Rightarrow> doc list \<Rightarrow> doc option" where
  "findOne q c = List.find (matches q) c"



text \<open>
  \<^verbatim>\<open>$set\<close> with a flat update document: every field of the update is written into
  the document, where a key that occurs twice in the list reads as \<open>field\<close> reads it.
  The field \<^verbatim>\<open>_id\<close> of a stored document is immutable.
\<close>

definition set_fields :: "doc \<Rightarrow> doc \<Rightarrow> doc" where
  "set_fields upd d = foldr (\<lambda>fv acc. AList.update (fst fv) (snd fv) acc) upd d"

definition apply_set :: "doc \<Rightarrow> doc \<Rightarrow> db_error + doc" where
  "apply_set upd d =
     (case field upd ''_id'' of
        None \<Rightarrow> Inr (set_fields upd d)
      | Some v \<Rightarrow>
          (case field d ''_id'' of
             None \<Rightarrow> Inr (set_fields upd d)
           | Some w \<Rightarrow> if v = w then Inr (set_fields upd d) else Inl ImmutableField))"

text \<open>
  An insert: a document without \<^verbatim>\<open>_id\<close> receives the generated ObjectId \<open>nid\<close>;
  the unique index on \<^verbatim>\<open>_id\<close> rejects an id that is already stored.
\<close>

definition has_id :: "jv option \<Rightarrow> doc list \<Rightarrow> bool" where
  "has_id i c = list_ex (\<lambda>d. field d ''_id'' = i) c"

definition insert_doc :: "string \<Rightarrow> doc \<Rightarrow> doc list \<Rightarrow> db_error + (jv \<times> doc list)" where
  "insert_doc nid d c =
     (let d' = (if field d ''_id'' = None then (''_id'', JOid nid) # d else d)
      in if has_id (field d' ''_id'') c then Inl DuplicateKey
         else Inr (wire (field d' ''_id''), c @ [d']))"

record write_result =
  matchedCount :: nat
  modifiedCount :: nat
  upsertedId :: "jv option"

text \<open>
  \<^verbatim>\<open>updateOne(filter, {$set: upd}, {upsert})\<close>: the first matching document is
  rewritten in place. \<open>None\<close> says that no document matched.
\<close>

fun update_first :: "filter \<Rightarrow> doc \<Rightarrow> doc list \<Rightarrow> (db_error + (nat \<times> doc list)) option" where
  "update_first q upd [] = None"
| "update_first q upd (d # ds) =
     (if matches q d then
        Some (case apply_set upd d of
                Inl e \<Rightarrow> Inl e
              | Inr d' \<Rightarrow> Inr (if d' = d then 0 else 1, d' # ds))
      else
        (case update_first q upd ds of
           None \<Rightarrow> None
         | Some (Inl e) \<Rightarrow> Some (Inl e)
         | Some (Inr (n, ds')) \<Rightarrow> Some (Inr (n, d # ds'))))"

text \<open>
  The upsert of an update that matched nothing: the new document is the filter's
  equality fields with the update applied, then inserted.
\<close>

definition upsert_doc :: "string \<Rightarrow> filter \<Rightarrow> doc \<Rightarrow> doc list \<Rightarrow> db_error + (write_result \<times> doc list)" where
  "upsert_doc nid q upd c =
     (case apply_set upd q of
        Inl e \<Rightarrow> Inl e
      | Inr d \<Rightarrow>
          (case insert_doc nid d c of
             Inl e \<Rightarrow> Inl e
           | Inr (i, c') \<Rightarrow> Inr (\<lparr>matchedCount = 0, modifiedCount = 0, upsertedId = Some i\<rparr>, c')))"

definition updateOne :: "string \<Rightarrow> filter \<Rightarrow> doc \<Rightarrow> bool \<Rightarrow> doc list \<Rightarrow> db_error + (write_result \<times> doc list)" where
  "updateOne nid q upd upsert c =
     (case update_first q upd c of
        Some (Inl e) \<Rightarrow> Inl e
      | Some (Inr (n, c')) \<Rightarrow> Inr (\<lparr>matchedCount = 1, modifiedCount = n, upsertedId = None\<rparr>, c')
      | None \<Rightarrow>
          if upsert then upsert_doc nid q upd c
          else Inr (\<lparr>matchedCount = 0, modifiedCount = 0, upsertedId = None\<rparr>, c))"

text \<open>
  \<^verbatim>\<open>updateMany\<close> rewrites every matching document in order. It is not atomic: a
  write error stops it and the documents rewritten before stay rewritten, so the
  collection is returned beside the error.
\<close>

fun update_each :: "filter \<Rightarrow> doc \<Rightarrow> doc list \<Rightarrow> doc list \<times> db_error option" where
  "update_each q upd [] = ([], None)"
| "update_each q upd (d # ds) =
     (if matches q d then
        (case apply_set upd d of
           Inl e \<Rightarrow> (d # ds, Some e)
         | Inr d' \<Rightarrow> (d' # fst (update_each q upd ds), snd (update_each q upd ds)))
      else (d # fst (update_each q upd ds), snd (update_each q upd ds)))"

definition updateMany :: "string \<Rightarrow> filter \<Rightarrow> doc \<Rightarrow> bool \<Rightarrow> doc list \<Rightarrow> doc list \<times> db_error option" where
  "updateMany nid q upd upsert c =
     (if list_ex (matches q) c then update_each q upd c
      else if upsert then
        (case upsert_doc nid q upd c of
           Inl e \<Rightarrow> (c, Some e)
         | Inr (r, c') \<Rightarrow> (c', None))
      else (c, None))"

text \<open>\<^verbatim>\<open>deleteOne\<close> removes the first matching document and counts it.\<close>

fun deleteOne :: "filter \<Rightarrow> doc list \<Rightarrow> nat \<times> doc list" where
  "deleteOne q [] = (0, [])"
| "deleteOne q (d # ds) =
     (if matches q d then (1, ds)
      else (fst (deleteOne q ds), d # snd (deleteOne q ds)))"

subsection \<open>Regular expressions\<close>

text \<open>
  \<^verbatim>\<open>{category: {$regex: p}}\<close> searches the field for the regular expression \<open>p\<close>.
  The model covers the patterns built from ordinary characters and the dot, which
  stands for any character but a line feed; \<open>rx_compile\<close> is \<open>None\<close> on every
  other pattern. A field that is not a string never matches.
\<close>

datatype rx_atom = AnyChar | Lit char

definition rx_meta :: "char \<Rightarrow> bool" where
  "rx_meta c =
     (c \<in> {CHR 0x5C, CHR ''^'', CHR ''$'', CHR ''.'', CHR ''['', CHR '']'', CHR ''|'',
           CHR ''('', CHR '')'', CHR ''?'', CHR ''*'', CHR ''+'', CHR ''{'', CHR ''}'', CHR 0x00})"

definition rx_compile :: "string \<Rightarrow> rx_atom list option" where
  "rx_compile p =
     (if list_ex (\<lambda>c. rx_meta c \<and> c \<noteq> CHR ''.'') p then None
      else Some (map (\<lambda>c. if c = CHR ''.'' then AnyChar else Lit c) p))"

fun rx_atom_ok :: "rx_atom \<Rightarrow> char \<Rightarrow> bool" where
  "rx_atom_ok AnyChar c = (c \<noteq> CHR 0x0A)"
| "rx_atom_ok (Lit a) c = (a = c)"

fun rx_here :: "rx_atom list \<Rightarrow> string \<Rightarrow> bool" where
  "rx_here [] s = True"
| "rx_here (a # as) [] = False"
| "rx_here (a # as) (c # cs) = (rx_atom_ok a c \<and> rx_here as cs)"

fun rx_search :: "rx_atom list \<Rightarrow> string \<Rightarrow> bool" where
  "rx_search r [] = rx_here r []"
| "rx_search r (c # cs) = (rx_here r (c # cs) \<or> rx_search r cs)"

definition regex_match :: "rx_atom list \<Rightarrow> jv option \<Rightarrow> bool" where
  "regex_match r v = (case v of Some (JStr s) \<Rightarrow> rx_search r s | _ \<Rightarrow> False)"

subsection \<open>JavaScript library functions\<close>

text \<open>\<^verbatim>\<open>String.prototype.split\<close> on a one-character separator, and \<^verbatim>\<open>Array.prototype.pop\<close>.\<close>

fun js_split :: "char \<Rightarrow> string \<Rightarrow> string list" where
  "js_split sep [] = [[]]"
| "js_split sep (c # cs) =
     (if c = sep then [] # js_split sep cs
      else (case js_split sep cs of
              [] \<Rightarrow> [[c]]
            | w # ws \<Rightarrow> (c # w) # ws))"

definition js_pop :: "'a list \<Rightarrow> 'a option" where
  "js_pop xs = (if xs = [] then None else Some (last xs))"


definition digit_val :: "char \<Rightarrow> nat option" where
  "digit_val c =
     (let n = of_char c :: nat in
      if 48 \<le> n \<and> n \<le> 57 then Some (n - 48)
      else if 97 \<le> n \<and> n \<le> 102 then Some (n - 87)
      else if 65 \<le> n \<and> n \<le> 70 then Some (n - 55)
      else None)"

definition is_digit :: "nat \<Rightarrow> char \<Rightarrow> bool" where
  "is_digit radix c = (case digit_val c of None \<Rightarrow> False | Some v \<Rightarrow> v < radix)"





subsection \<open>JSON web tokens\<close>

text \<open>
  A token is modelled symbolically: its claims and the key that signed it. The
  claims are the signed payload with the times, in seconds, that
  \<^verbatim>\<open>jwt.sign\<close> adds for \<^verbatim>\<open>expiresIn\<close>. \<^verbatim>\<open>jwt.verify\<close> decodes the
  string from the header, which is garbage when \<open>parse\<close> is \<open>None\<close>, checks the
  signature and the expiry, and gives an error (\<open>None\<close>) or the claims.
\<close>

record claims =
  payload :: doc
  iat :: nat
  exp :: nat

datatype jwt = Jwt claims string


definition jwt_check :: "jwt \<Rightarrow> string \<Rightarrow> nat \<Rightarrow> claims option" where
  "jwt_check tok key t =
     (case tok of Jwt c k \<Rightarrow> if k = key \<and> t < exp c then Some c else None)"

definition jwt_verify :: "(string \<Rightarrow> jwt option) \<Rightarrow> string \<Rightarrow> string \<Rightarrow> nat \<Rightarrow> claims option" where
  "jwt_verify parse s key t =
     (case parse s of None \<Rightarrow> None | Some tok \<Rightarrow> jwt_check tok key t)"


section \<open>The server\<close>

text \<open>
  What a request handler reads from outside the request and the collections: the
  signing secret \<^verbatim>\<open>process.env.ACCESS_TOKEN\<close>, the clock in seconds, the
  decoding of a token string, the driver's \<^verbatim>\<open>ObjectId\<close> constructor (\<open>None\<close>
  when it throws on a malformed id), the ObjectId generated for a document that is
  inserted without one, and the capacity of a single cursor batch.
\<close>

record env =
  ACCESS_TOKEN :: string
  now :: nat
  parse_jwt :: "string \<Rightarrow> jwt option"
  ObjectId :: "string \<Rightarrow> string option"
  newId :: string
  batch :: nat

text \<open>
  The parts of \<^verbatim>\<open>req\<close> that the handlers read: the Authorization header, the path
  parameters \<^verbatim>\<open>:id\<close> and \<^verbatim>\<open>:email\<close>, the query parameters \<^verbatim>\<open>email\<close> and
  \<^verbatim>\<open>limit\<close>, the parsed JSON body, and \<^verbatim>\<open>req.decoded\<close>, which
  \<^verbatim>\<open>verifyToken\<close> sets.
\<close>

record request =
  authorization :: "string option"
  params_id :: string
  params_email :: string
  query_email :: "string option"
  query_limit :: "string option"
  body :: doc
  decoded :: "claims option"

record database =
  categories :: "doc list"
  users :: "doc list"
  products :: "doc list"

text \<open>
  A handler answers with a status and a body, or its promise is rejected by an
  exception and no answer is sent. \<open>Unspecified\<close> stands for an answer that the
  model does not determine (a regular expression outside the modelled patterns).
\<close>

datatype rbody =
  Message string
| Docs "doc list"
| AccessToken jwt
| Flag string bool
| DeleteResult nat
| UpdateResult write_result
| InsertResult jv

datatype outcome = Responded nat rbody | Rejected db_error | Unspecified

type_synonym result = "outcome \<times> database"

type_synonym handler = "request \<Rightarrow> database \<Rightarrow> result"

subsection \<open>Middleware\<close>

text \<open>
  A middleware receives the rest of the chain as \<open>next\<close> and either answers itself
  or calls it.
\<close>

definition verifyToken :: "env \<Rightarrow> handler \<Rightarrow> handler" where
  "verifyToken e next req db =
     (case authorization req of
        None \<Rightarrow> (Responded 401 (Message ''Unauthorized access''), db)
      | Some authHeader \<Rightarrow>
          if authHeader = [] then (Responded 401 (Message ''Unauthorized access''), db)
          else
            (case js_pop (js_split CHR '' '' authHeader) of
               None \<Rightarrow> (Responded 403 (Message ''Forbidden access''), db)
             | Some token \<Rightarrow>
                 (case jwt_verify (parse_jwt e) token (ACCESS_TOKEN e) (now e) of
                    None \<Rightarrow> (Responded 403 (Message ''Forbidden access''), db)
                  | Some dec \<Rightarrow> next (req\<lparr>decoded := Some dec\<rparr>) db)))"

text \<open>\<^verbatim>\<open>user?.userRole\<close>\<close>

definition user_role :: "doc option \<Rightarrow> jv option" where
  "user_role user = (case user of None \<Rightarrow> None | Some u \<Rightarrow> field u ''userRole'')"

definition verifyAdmin :: "env \<Rightarrow> handler \<Rightarrow> handler" where
  "verifyAdmin e next req db =
     (case decoded req of
        None \<Rightarrow> (Rejected TypeError, db)
      | Some dec \<Rightarrow>
          (let decodedEmail = field (payload dec) ''email'';
               query = [(''email'', wire decodedEmail)];
               user = findOne query (users db)
           in if user_role user \<noteq> Some (JStr ''admin'')
              then (Responded 403 (Message ''Forbidden access''), db)
              else next req db))"

definition verifySeller :: "env \<Rightarrow> handler \<Rightarrow> handler" where
  "verifySeller e next req db =
     (case decoded req of
        None \<Rightarrow> (Rejected TypeError, db)
      | Some dec \<Rightarrow>
          (let decodedEmail = field (payload dec) ''email'';
               query = [(''email'', wire decodedEmail)];
               user = findOne query (users db)
           in if user_role user \<noteq> Some (JStr ''seller'')
              then (Responded 403 (Message ''Forbidden access''), db)
              else next req db))"

subsection \<open>Route handlers\<close>

text \<open>\<^verbatim>\<open>DELETE /products/:id\<close>\<close>

definition delete_product :: "env \<Rightarrow> handler" where
  "delete_product e req db =
     (let sellerEmail = map_option JStr (query_email req);
          productId = params_id req
      in case ObjectId e productId of
           None \<Rightarrow> (Rejected BSONTypeError, db)
         | Some oid \<Rightarrow>
             (let query = [(''sellerEmail'', wire sellerEmail), (''_id'', JOid oid)];
                  result = deleteOne query (products db)
              in (Responded 200 (DeleteResult (fst result)), db\<lparr>products := snd result\<rparr>)))"

text \<open>\<^verbatim>\<open>PUT /products/advertisement/:id\<close>\<close>

definition advertise_product :: "env \<Rightarrow> handler" where
  "advertise_product e req db =
     (let sellerEmail = map_option JStr (query_email req);
          productId = params_id req
      in case ObjectId e productId of
           None \<Rightarrow> (Rejected BSONTypeError, db)
         | Some oid \<Rightarrow>
             (let query = [(''sellerEmail'', wire sellerEmail), (''_id'', JOid oid)];
                  updatedDoc = [(''isAdvertised'', JBool True)]
              in case updateOne (newId e) query updatedDoc True (products db) of
                   Inl err \<Rightarrow> (Rejected err, db)
                 | Inr (result, ps) \<Rightarrow>
                     (Responded 200 (UpdateResult result), db\<lparr>products := ps\<rparr>)))"


text \<open>\<^verbatim>\<open>GET /categories/:id\<close>\<close>

definition get_category_products :: "env \<Rightarrow> handler" where
  "get_category_products e req db =
     (let categoryId = params_id req
      in case rx_compile categoryId of
           None \<Rightarrow> (Unspecified, db)
         | Some r \<Rightarrow>
             (Responded 200
                (Docs (filter (\<lambda>d. regex_match r (field d ''category'')
                                  \<and> eq_match d (''isSold'', JBool False))
                         (products db))), db))"

text \<open>\<^verbatim>\<open>GET /users/admin/:email\<close>, \<^verbatim>\<open>GET /users/buyer/:email\<close>, \<^verbatim>\<open>GET /users/seller/:email\<close>\<close>

definition get_admin_status :: "env \<Rightarrow> handler" where
  "get_admin_status e req db =
     (let email = params_email req;
          query = [(''email'', JStr email)];
          result = findOne query (users db)
      in (Responded 200 (Flag ''isAdmin'' (user_role result = Some (JStr ''admin''))), db))"

definition get_buyer_status :: "env \<Rightarrow> handler" where
  "get_buyer_status e req db =
     (let email = params_email req;
          query = [(''email'', JStr email)];
          result = findOne query (users db)
      in (Responded 200 (Flag ''isBuyer'' (user_role result = Some (JStr ''buyer''))), db))"

definition get_seller_status :: "env \<Rightarrow> handler" where
  "get_seller_status e req db =
     (let email = params_email req;
          query = [(''email'', JStr email)];
          result = findOne query (users db)
      in (Responded 200 (Flag ''isSeller'' (user_role result = Some (JStr ''seller''))), db))"

text \<open>
  \<^verbatim>\<open>PUT /users/seller/:id\<close>: two writes, one after the other. A failure of the
  second leaves the first in place.
\<close>

definition verify_a_seller :: "env \<Rightarrow> handler" where
  "verify_a_seller e req db =
     (let userId = params_id req;
          userEmail = map_option JStr (query_email req)
      in case ObjectId e userId of
           None \<Rightarrow> (Rejected BSONTypeError, db)
         | Some oid \<Rightarrow>
             (let query = [(''_id'', JOid oid)];
                  update = body req
              in case updateOne (newId e) query update True (users db) of
                   Inl err \<Rightarrow> (Rejected err, db)
                 | Inr (result, us) \<Rightarrow>
                     (let productsFilter = [(''sellerEmail'', wire userEmail)];
                          written = updateMany (newId e) productsFilter update True (products db)
                      in case snd written of
                           Some err \<Rightarrow> (Rejected err, db\<lparr>users := us, products := fst written\<rparr>)
                         | None \<Rightarrow>
                             (Responded 200 (UpdateResult result),
                              db\<lparr>users := us, products := fst written\<rparr>))))"

text \<open>\<^verbatim>\<open>POST /users\<close>\<close>

definition create_user :: "env \<Rightarrow> handler" where
  "create_user e req db =
     (let user = (if \<not> truthy (field (body req) ''userRole'')
                  then AList.update ''userRole'' (JStr ''buyer'') (body req)
                  else body req);
          isExisting = findOne [(''email'', wire (field user ''email''))] (users db)
      in case isExisting of
           Some u \<Rightarrow> (Responded 200 (Message ''User already exists!''), db)
         | None \<Rightarrow>
             (case insert_doc (newId e) user (users db) of
                Inl err \<Rightarrow> (Rejected err, db)
              | Inr (i, us) \<Rightarrow> (Responded 200 (InsertResult i), db\<lparr>users := us\<rparr>)))"


subsection \<open>Routes: the middleware chain of each path\<close>

definition route_delete_product :: "env \<Rightarrow> handler" where
  "route_delete_product e = verifyToken e (verifySeller e (delete_product e))"

definition route_advertise_product :: "env \<Rightarrow> handler" where
  "route_advertise_product e = verifyToken e (verifySeller e (advertise_product e))"


definition route_get_category_products :: "env \<Rightarrow> handler" where
  "route_get_category_products e = verifyToken e (get_category_products e)"

definition route_get_admin_status :: "env \<Rightarrow> handler" where
  "route_get_admin_status e = verifyToken e (get_admin_status e)"

definition route_get_buyer_status :: "env \<Rightarrow> handler" where
  "route_get_buyer_status e = verifyToken e (get_buyer_status e)"

definition route_get_seller_status :: "env \<Rightarrow> handler" where
  "route_get_seller_status e = verifyToken e (get_seller_status e)"

definition route_verify_a_seller :: "env \<Rightarrow> handler" where
  "route_verify_a_seller e = verifyToken e (verifyAdmin e (verify_a_seller e))"

definition route_create_user :: "env \<Rightarrow> handler" where
  "route_create_user e = create_user e"


text \<open>
  The claims under which \<^verbatim>\<open>verifyToken\<close> lets a request pass: the header is there
  and not empty, and its last word verifies.
\<close>

definition authenticated :: "env \<Rightarrow> request \<Rightarrow> claims option" where
  "authenticated e req =
     (case authorization req of
        None \<Rightarrow> None
      | Some h \<Rightarrow>
          if h = [] then None
          else (case js_pop (js_split CHR '' '' h) of
                  None \<Rightarrow> None
                | Some t \<Rightarrow> jwt_verify (parse_jwt e) t (ACCESS_TOKEN e) (now e)))"

text \<open>The role stored for the email of a token's claims, as the role gates read it.\<close>

definition stored_role :: "database \<Rightarrow> claims \<Rightarrow> jv option" where
  "stored_role db dec =
     user_role (findOne [(''email'', wire (field (payload dec) ''email''))] (users db))"

subsection \<open>A sample deployment\<close>

text \<open>
  A concrete environment, database and requests, on which the theorems below are
  instantiated.
\<close>

definition ex_claims :: "string \<Rightarrow> claims" where
  "ex_claims em = \<lparr>payload = [(''email'', JStr em)], iat = 0, exp = 36000\<rparr>"

definition ex_parse :: "string \<Rightarrow> jwt option" where
  "ex_parse s =
     (if s = ''tok-root'' then Some (Jwt (ex_claims ''root@x.io'') ''s3cret'')
      else if s = ''tok-sam'' then Some (Jwt (ex_claims ''sam@x.io'') ''s3cret'')
      else if s = ''tok-bea'' then Some (Jwt (ex_claims ''bea@x.io'') ''s3cret'')
      else if s = ''tok-eve'' then Some (Jwt (ex_claims ''root@x.io'') ''guess'')
      else None)"

definition ex_oid :: "string \<Rightarrow> string option" where
  "ex_oid s = (if length s = 24 \<and> list_all (is_digit 16) s then Some s else None)"

definition ex_env :: env where
  "ex_env = \<lparr>ACCESS_TOKEN = ''s3cret'', now = 1000, parse_jwt = ex_parse,
             ObjectId = ex_oid, newId = ''ffffffffffffffffffffffff'', batch = 101\<rparr>"

definition ex_users :: "doc list" where
  "ex_users =
     [[(''_id'', JOid ''a00000000000000000000001''), (''email'', JStr ''root@x.io''),
       (''userRole'', JStr ''admin'')],
      [(''_id'', JOid ''a00000000000000000000002''), (''email'', JStr ''sam@x.io''),
       (''userRole'', JStr ''seller'')],
      [(''_id'', JOid ''a00000000000000000000003''), (''email'', JStr ''bea@x.io''),
       (''userRole'', JStr ''buyer'')]]"

definition ex_bike :: doc where
  "ex_bike = [(''_id'', JOid ''b00000000000000000000001''), (''sellerEmail'', JStr ''sam@x.io''),
              (''category'', JStr ''abc''), (''isSold'', JBool False)]"

definition ex_rower :: doc where
  "ex_rower = [(''_id'', JOid ''b00000000000000000000002''), (''sellerEmail'', JStr ''bea@x.io''),
               (''category'', JStr ''rowing''), (''isSold'', JBool False)]"

definition ex_cats :: "doc list" where
  "ex_cats = [[(''name'', JStr ''abc'')], [(''name'', JStr ''rowing'')]]"

definition ex_db :: database where
  "ex_db = \<lparr>categories = ex_cats, users = ex_users, products = [ex_bike, ex_rower]\<rparr>"

definition ex_req :: request where
  "ex_req = \<lparr>authorization = None, params_id = [], params_email = [], query_email = None,
             query_limit = None, body = [], decoded = None\<rparr>"

definition ex_next :: handler where
  "ex_next req db = (Responded 200 (Message ''handled''), db\<lparr>categories := []\<rparr>)"

section \<open>Properties\<close>

subsection \<open>Auxiliary facts\<close>

lemma field_update: "field (AList.update k v d) f = (if f = k then Some v else field d f)"
  by (simp add: field_def update_conv')

lemma js_split_nonempty: "js_split sep s \<noteq> []"
  by (induction s) (auto split: list.splits)

lemma js_pop_split_total: "\<exists>t. js_pop (js_split sep s) = Some t"
  by (simp add: js_pop_def js_split_nonempty)



lemma verifyToken_passes:
  "authenticated e req = Some dec \<Longrightarrow>
   verifyToken e nxt req db = nxt (req\<lparr>decoded := Some dec\<rparr>) db"
  by (auto simp: authenticated_def verifyToken_def split: option.splits if_splits)

lemma verifyToken_blocks:
  "authenticated e req = None \<Longrightarrow>
   fst (verifyToken e nxt req db) = Responded 401 (Message ''Unauthorized access'') \<or>
   fst (verifyToken e nxt req db) = Responded 403 (Message ''Forbidden access'')"
  by (auto simp: authenticated_def verifyToken_def split: option.splits if_splits)

lemma matches_email: "matches [(''email'', JStr x)] u \<longleftrightarrow> field u ''email'' = Some (JStr x)"
  by (simp add: matches_def eq_match_def)

lemma findOne_None: "findOne q c = None \<longleftrightarrow> (\<forall>d \<in> set c. \<not> matches q d)"
  by (auto simp: findOne_def find_None_iff)


lemma rx_here_Lit: "rx_here (map Lit p) s = prefix p s"
  by (induction p s rule: list_induct2') auto

lemma rx_search_Lit: "rx_search (map Lit p) s = sublist p s"
  by (induction s) (auto simp: rx_here_Lit sublist_Cons_right)

lemma rx_compile_plain:
  assumes "\<forall>c \<in> set p. \<not> rx_meta c"
  shows "rx_compile p = Some (map Lit p)"
proof -
  have "\<forall>c \<in> set p. c \<noteq> CHR ''.''"
    using assms by (auto simp: rx_meta_def)
  then have "map (\<lambda>c. if c = CHR ''.'' then AnyChar else Lit c) p = map Lit p"
    by (induction p) auto
  with assms show ?thesis
    by (simp add: rx_compile_def list_ex_iff)
qed

subsection \<open>Authentication and roles\<close>

text \<open>
  C1 (as amended). On every route behind \<^verbatim>\<open>verifyToken\<close>: a request without an
  Authorization header, or with an empty one, is answered 401; a request whose
  non-empty header ends in a token that fails verification (garbage, a wrong
  signature or an expired token) is answered 403. In both cases the rest of the
  chain \<open>nxt\<close> is not run: the answer and the database do not depend on it.
\<close>

theorem verifyToken_rejects:
  "((authorization req = None \<or> authorization req = Some []) \<longrightarrow>
      verifyToken e nxt req db = (Responded 401 (Message ''Unauthorized access''), db)) \<and>
   (authorization req = Some h \<and> h \<noteq> [] \<and> js_pop (js_split CHR '' '' h) = Some t \<and>
    jwt_verify (parse_jwt e) t (ACCESS_TOKEN e) (now e) = None \<longrightarrow>
      verifyToken e nxt req db = (Responded 403 (Message ''Forbidden access''), db))"
  by (auto simp: verifyToken_def)

theorem verifyToken_rejects_witness:
  "verifyToken ex_env ex_next (ex_req\<lparr>authorization := Some []\<rparr>) ex_db
     = (Responded 401 (Message ''Unauthorized access''), ex_db) \<and>
   js_pop (js_split CHR '' '' ''Bearer tok-eve'') = Some ''tok-eve'' \<and>
   jwt_verify (parse_jwt ex_env) ''tok-eve'' (ACCESS_TOKEN ex_env) (now ex_env) = None \<and>
   verifyToken ex_env ex_next (ex_req\<lparr>authorization := Some ''Bearer tok-eve''\<rparr>) ex_db
     = (Responded 403 (Message ''Forbidden access''), ex_db)"
  using verifyToken_rejects [where req = "ex_req\<lparr>authorization := Some []\<rparr>" and e = ex_env
      and nxt = ex_next and db = ex_db]
    verifyToken_rejects [where req = "ex_req\<lparr>authorization := Some ''Bearer tok-eve''\<rparr>"
      and h = "''Bearer tok-eve''" and t = "''tok-eve''" and e = ex_env and nxt = ex_next and db = ex_db]
  by (simp add: js_pop_def jwt_verify_def jwt_check_def ex_env_def ex_parse_def ex_claims_def)

text \<open>
  C1 as stated fails: an Authorization header that is present with an empty value
  carries the token \<^verbatim>\<open>""\<close>, which does not verify, and the answer is 401, not 403.
\<close>

theorem empty_header_counterexample:
  "authorization (ex_req\<lparr>authorization := Some []\<rparr>) = Some [] \<and>
   js_pop (js_split CHR '' '' []) = Some [] \<and>
   jwt_verify (parse_jwt ex_env) [] (ACCESS_TOKEN ex_env) (now ex_env) = None \<and>
   verifyToken ex_env ex_next (ex_req\<lparr>authorization := Some []\<rparr>) ex_db
     = (Responded 401 (Message ''Unauthorized access''), ex_db)"
  by (simp add: verifyToken_def js_pop_def jwt_verify_def ex_env_def ex_parse_def)

text \<open>
  C2. An authenticated request to a route behind \<^verbatim>\<open>verifyAdmin\<close> or
  \<^verbatim>\<open>verifySeller\<close>: the user is looked up by the email of the token's claims, and
  whenever the stored role is not the required one the answer is 403 and the
  handler \<open>nxt\<close> is not run. That includes the case of no user record; and a stored
  admin does not pass the seller gate, nor a stored seller the admin gate.
\<close>

theorem role_gate_forbids:
  assumes "authenticated e req = Some dec"
  shows "(stored_role db dec \<noteq> Some (JStr ''admin'') \<longrightarrow>
            verifyToken e (verifyAdmin e nxt) req db
              = (Responded 403 (Message ''Forbidden access''), db)) \<and>
         (stored_role db dec \<noteq> Some (JStr ''seller'') \<longrightarrow>
            verifyToken e (verifySeller e nxt) req db
              = (Responded 403 (Message ''Forbidden access''), db)) \<and>
         (findOne [(''email'', wire (field (payload dec) ''email''))] (users db) = None \<longrightarrow>
            verifyToken e (verifyAdmin e nxt) req db
              = (Responded 403 (Message ''Forbidden access''), db) \<and>
            verifyToken e (verifySeller e nxt) req db
              = (Responded 403 (Message ''Forbidden access''), db)) \<and>
         (stored_role db dec = Some (JStr ''admin'') \<longrightarrow>
            verifyToken e (verifySeller e nxt) req db
              = (Responded 403 (Message ''Forbidden access''), db)) \<and>
         (stored_role db dec = Some (JStr ''seller'') \<longrightarrow>
            verifyToken e (verifyAdmin e nxt) req db
              = (Responded 403 (Message ''Forbidden access''), db))"
  using assms
  by (simp add: verifyToken_passes verifyAdmin_def verifySeller_def stored_role_def user_role_def)


theorem role_gate_forbids_witness:
  "authenticated ex_env (ex_req\<lparr>authorization := Some ''Bearer tok-sam''\<rparr>) = Some (ex_claims ''sam@x.io'') \<and>
   stored_role ex_db (ex_claims ''sam@x.io'') = Some (JStr ''seller'') \<and>
   verifyToken ex_env (verifyAdmin ex_env ex_next) (ex_req\<lparr>authorization := Some ''Bearer tok-sam''\<rparr>) ex_db
     = (Responded 403 (Message ''Forbidden access''), ex_db)"
proof -
  have a: "authenticated ex_env (ex_req\<lparr>authorization := Some ''Bearer tok-sam''\<rparr>) = Some (ex_claims ''sam@x.io'')"
    by (simp add: authenticated_def js_pop_def jwt_verify_def jwt_check_def ex_env_def ex_parse_def ex_claims_def)
  have r: "stored_role ex_db (ex_claims ''sam@x.io'') = Some (JStr ''seller'')"
    by (simp add: stored_role_def user_role_def findOne_def matches_def eq_match_def field_def wire_def
        ex_db_def ex_users_def ex_claims_def)
  from role_gate_forbids [OF a, where db = ex_db and nxt = ex_next] a r show ?thesis by simp
qed

subsection \<open>Users and tokens\<close>

text \<open>
  C5. \<^verbatim>\<open>POST /users\<close> with a body whose email already belongs to a stored user
  is answered 200 with the message "User already exists!", and the database is
  left as it was.
\<close>

theorem existing_user_untouched:
  assumes "field (body req) ''email'' = Some (JStr x)"
    and "u \<in> set (users db)" and "field u ''email'' = Some (JStr x)"
  shows "route_create_user e req db = (Responded 200 (Message ''User already exists!''), db)"
proof -
  have "matches [(''email'', JStr x)] u"
    using assms(3) by (simp add: matches_def eq_match_def)
  with assms(2) have "List.find (matches [(''email'', JStr x)]) (users db) \<noteq> None"
    by (auto simp: find_None_iff)
  then obtain w where "findOne [(''email'', JStr x)] (users db) = Some w"
    by (auto simp: findOne_def)
  with assms(1) show ?thesis
    by (simp add: route_create_user_def create_user_def field_update wire_def Let_def)
qed

theorem existing_user_untouched_witness:
  "field [(''email'', JStr ''bea@x.io''), (''userRole'', JStr ''admin'')] ''email'' = Some (JStr ''bea@x.io'') \<and>
   ex_users ! 2 \<in> set (users ex_db) \<and> field (ex_users ! 2) ''email'' = Some (JStr ''bea@x.io'') \<and>
   route_create_user ex_env (ex_req\<lparr>body := [(''email'', JStr ''bea@x.io''), (''userRole'', JStr ''admin'')]\<rparr>) ex_db
     = (Responded 200 (Message ''User already exists!''), ex_db)"
  using existing_user_untouched [where req = "ex_req\<lparr>body := [(''email'', JStr ''bea@x.io''), (''userRole'', JStr ''admin'')]\<rparr>"
      and x = "''bea@x.io''" and u = "ex_users ! 2" and db = ex_db and e = ex_env]
  by (simp add: field_def ex_db_def ex_users_def)



text \<open>
  C10. An authenticated request to one of the three role-status routes with an
  email that no user record has is answered 200 with the flag false, which is
  also the answer for a stored user whose role is another one.
\<close>

theorem role_status_unknown_user:
  assumes "authenticated e req = Some dec"
  shows "((\<forall>u \<in> set (users db). field u ''email'' \<noteq> Some (JStr (params_email req))) \<longrightarrow>
            route_get_admin_status e req db = (Responded 200 (Flag ''isAdmin'' False), db) \<and>
            route_get_buyer_status e req db = (Responded 200 (Flag ''isBuyer'' False), db) \<and>
            route_get_seller_status e req db = (Responded 200 (Flag ''isSeller'' False), db)) \<and>
         (findOne [(''email'', JStr (params_email req))] (users db) = Some u \<longrightarrow>
            (field u ''userRole'' \<noteq> Some (JStr ''admin'') \<longrightarrow>
               route_get_admin_status e req db = (Responded 200 (Flag ''isAdmin'' False), db)) \<and>
            (field u ''userRole'' \<noteq> Some (JStr ''buyer'') \<longrightarrow>
               route_get_buyer_status e req db = (Responded 200 (Flag ''isBuyer'' False), db)) \<and>
            (field u ''userRole'' \<noteq> Some (JStr ''seller'') \<longrightarrow>
               route_get_seller_status e req db = (Responded 200 (Flag ''isSeller'' False), db)))"
proof -
  have "(\<forall>u \<in> set (users db). field u ''email'' \<noteq> Some (JStr (params_email req))) \<Longrightarrow>
      findOne [(''email'', JStr (params_email req))] (users db) = None"
    by (simp add: findOne_None matches_email)
  with assms show ?thesis
    by (auto simp: route_get_admin_status_def route_get_buyer_status_def route_get_seller_status_def
        verifyToken_passes get_admin_status_def get_buyer_status_def get_seller_status_def
        user_role_def)
qed

theorem role_status_unknown_user_witness:
  "authenticated ex_env (ex_req\<lparr>authorization := Some ''Bearer tok-bea'', params_email := ''zed@x.io''\<rparr>)
     = Some (ex_claims ''bea@x.io'') \<and>
   \<not> (\<exists>u \<in> set (users ex_db). field u ''email'' = Some (JStr ''zed@x.io'')) \<and>
   route_get_admin_status ex_env (ex_req\<lparr>authorization := Some ''Bearer tok-bea'', params_email := ''zed@x.io''\<rparr>) ex_db
     = (Responded 200 (Flag ''isAdmin'' False), ex_db) \<and>
   route_get_buyer_status ex_env (ex_req\<lparr>authorization := Some ''Bearer tok-bea'', params_email := ''zed@x.io''\<rparr>) ex_db
     = (Responded 200 (Flag ''isBuyer'' False), ex_db) \<and>
   route_get_seller_status ex_env (ex_req\<lparr>authorization := Some ''Bearer tok-bea'', params_email := ''zed@x.io''\<rparr>) ex_db
     = (Responded 200 (Flag ''isSeller'' False), ex_db)"
proof -
  have a: "authenticated ex_env (ex_req\<lparr>authorization := Some ''Bearer tok-bea'', params_email := ''zed@x.io''\<rparr>)
     = Some (ex_claims ''bea@x.io'')"
    by (simp add: authenticated_def js_pop_def jwt_verify_def jwt_check_def ex_env_def ex_parse_def ex_claims_def)
  have n: "\<forall>u \<in> set (users ex_db). field u ''email'' \<noteq> Some (JStr ''zed@x.io'')"
    by (simp add: ex_db_def ex_users_def field_def)
  from role_status_unknown_user [OF a, where db = ex_db] a n show ?thesis by simp
qed

subsection \<open>Categories\<close>




text \<open>
  C4 (as amended). An authenticated \<^verbatim>\<open>GET /categories/:id\<close> whose
  \<^verbatim>\<open>:id\<close> holds no regular-expression metacharacter is answered with exactly the
  products whose \<^verbatim>\<open>isSold\<close> is false and whose category is a string that
  contains \<^verbatim>\<open>:id\<close>.
\<close>

theorem category_products_plain:
  assumes "authenticated e req = Some dec" and "\<forall>c \<in> set (params_id req). \<not> rx_meta c"
  shows "route_get_category_products e req db =
           (Responded 200
              (Docs (filter (\<lambda>p. field p ''isSold'' = Some (JBool False) \<and>
                                (\<exists>s. field p ''category'' = Some (JStr s) \<and> sublist (params_id req) s))
                       (products db))), db)"
proof -
  have "\<And>d. (regex_match (map Lit (params_id req)) (field d ''category'') \<and> eq_match d (''isSold'', JBool False))
      \<longleftrightarrow> (field d ''isSold'' = Some (JBool False) \<and>
           (\<exists>s. field d ''category'' = Some (JStr s) \<and> sublist (params_id req) s))"
    by (auto simp: regex_match_def eq_match_def rx_search_Lit split: option.splits jv.splits)
  then show ?thesis
    using assms
    by (simp add: route_get_category_products_def verifyToken_passes get_category_products_def
        rx_compile_plain)
qed

theorem category_products_plain_witness:
  "authenticated ex_env (ex_req\<lparr>authorization := Some ''Bearer tok-bea'', params_id := ''row''\<rparr>)
     = Some (ex_claims ''bea@x.io'') \<and>
   \<not> (\<exists>c \<in> set ''row''. rx_meta c) \<and>
   route_get_category_products ex_env (ex_req\<lparr>authorization := Some ''Bearer tok-bea'', params_id := ''row''\<rparr>) ex_db
     = (Responded 200 (Docs [ex_rower]), ex_db)"
proof -
  have a: "authenticated ex_env (ex_req\<lparr>authorization := Some ''Bearer tok-bea'', params_id := ''row''\<rparr>)
     = Some (ex_claims ''bea@x.io'')"
    by (simp add: authenticated_def js_pop_def jwt_verify_def jwt_check_def ex_env_def ex_parse_def ex_claims_def)
  have m: "\<forall>c \<in> set (params_id (ex_req\<lparr>authorization := Some ''Bearer tok-bea'', params_id := ''row''\<rparr>)). \<not> rx_meta c"
    by (simp add: rx_meta_def)
  from category_products_plain [OF a m, where db = ex_db]
  have "route_get_category_products ex_env (ex_req\<lparr>authorization := Some ''Bearer tok-bea'', params_id := ''row''\<rparr>) ex_db
     = (Responded 200 (Docs [ex_rower]), ex_db)"
    by (simp add: ex_db_def ex_bike_def ex_rower_def field_def sublist_Cons_right)
  with a m show ?thesis by simp
qed

text \<open>
  C4 as stated fails: \<^verbatim>\<open>:id\<close> is used as a regular expression, so \<^verbatim>\<open>a.c\<close>
  returns the product of category \<^verbatim>\<open>abc\<close>, which does not contain \<^verbatim>\<open>a.c\<close>.
\<close>

theorem regex_dot_counterexample:
  "route_get_category_products ex_env (ex_req\<lparr>authorization := Some ''Bearer tok-bea'', params_id := ''a.c''\<rparr>) ex_db
     = (Responded 200 (Docs [ex_bike]), ex_db) \<and>
   field ex_bike ''category'' = Some (JStr ''abc'') \<and> \<not> sublist ''a.c'' ''abc''"
  by (simp add: route_get_category_products_def verifyToken_def js_pop_def jwt_verify_def jwt_check_def
      ex_env_def ex_parse_def ex_claims_def get_category_products_def rx_compile_def rx_meta_def
      regex_match_def eq_match_def field_def ex_db_def ex_bike_def ex_rower_def sublist_Cons_right)

end
